theory Spec2Isabelle
  imports Main
begin

text \<open>
  A model of \<^verbatim>\<open>preprocess_corpora/preprocessing/tok.py\<close>: the dispatcher
  \<^verbatim>\<open>tokenize_single\<close>, the Uplug adapter, and the two builders \<^verbatim>\<open>nltk_tokenize\<close> and
  \<^verbatim>\<open>nlp_process\<close> that turn the lines of a text file into a tree of paragraphs, sentences
  and words. The tokenizer libraries, the shell and the constants of
  \<^verbatim>\<open>core.constants\<close> are parameters of the model.
\<close>

section \<open>The document tree\<close>

text \<open>
  \<^verbatim>\<open>tok.py\<close> builds an lxml element tree: a root \<^verbatim>\<open>text\<close> element whose children are
  \<^verbatim>\<open>p\<close> elements, each holding \<^verbatim>\<open>s\<close> elements, each holding \<^verbatim>\<open>w\<close> elements. An element
  is modelled by a record of the attributes and the children the code sets; the root is
  the list of its \<^verbatim>\<open>p\<close> children. \<^verbatim>\<open>etree.SubElement(parent, tag)\<close> appends the new
  element after the parent's last child, so children are lists in creation order.
\<close>

record w_elem =
  w_id :: string
  w_text :: string
  w_tree :: "string option"
  w_lem :: "string option"

record s_elem =
  s_id :: string
  s_words :: "w_elem list"

record p_elem =
  p_id :: string
  p_sents :: "s_elem list"

type_synonym text_elem = "p_elem list"

text \<open>
  The variables \<^verbatim>\<open>paragraph\<close> and \<^verbatim>\<open>sentence\<close> of the source always point at the element
  created last: \<^verbatim>\<open>paragraph\<close> is the last child of \<^verbatim>\<open>text\<close>, and \<^verbatim>\<open>sentence\<close> is only
  used after a sentence has been created for the current line (\<^verbatim>\<open>start_new\<close> is true at
  the first candidate of every line), where it is the last child of \<^verbatim>\<open>paragraph\<close>.
  A change made through one of these variables is a change of the last element. The
  empty list, where \<^verbatim>\<open>sentence\<close> would be unbound, is never reached by the loop over the
  candidates of a line (lemma \<open>nlp_fold_opened\<close> below).
\<close>

fun upd_last :: "('a \<Rightarrow> 'a) \<Rightarrow> 'a list \<Rightarrow> 'a list" where
  "upd_last f [] = []"
| "upd_last f [x] = [f x]"
| "upd_last f (x # y # ys) = x # upd_last f (y # ys)"

section \<open>Identifiers\<close>

text \<open>
  The counters \<^verbatim>\<open>i\<close>, \<^verbatim>\<open>j\<close>, \<^verbatim>\<open>k\<close> start at 0 or 1 and are only ever incremented, so they
  are natural numbers. \<^verbatim>\<open>str\<close> is Python's decimal rendering of such a number, and the
  two format functions are \<^verbatim>\<open>'s{}.{}'.format(i, j)\<close> and \<^verbatim>\<open>'w{}.{}.{}'.format(i, j, k)\<close>.
\<close>

definition digit_char :: "nat \<Rightarrow> char" where
  "digit_char d = ''0123456789'' ! d"

fun str :: "nat \<Rightarrow> string" where
  "str n = (if n < 10 then [digit_char n] else str (n div 10) @ [digit_char (n mod 10)])"

declare str.simps [simp del]

definition s_format :: "nat \<Rightarrow> nat \<Rightarrow> string" where
  "s_format i j = ''s'' @ str i @ ''.'' @ str j"

definition w_format :: "nat \<Rightarrow> nat \<Rightarrow> nat \<Rightarrow> string" where
  "w_format i j k = ''w'' @ str i @ ''.'' @ str j @ ''.'' @ str k"

section \<open>Input lines\<close>

text \<open>
  \<^verbatim>\<open>line.strip()\<close> removes leading and trailing whitespace. A \<^typ>\<open>string\<close> is a list of
  8-bit characters, so \<open>isspace\<close> is Python's whitespace test on the ASCII range
  (tab, line feed, vertical tab, form feed, carriage return, the separators
  0x1C..0x1F and the space).
\<close>

definition isspace :: "char \<Rightarrow> bool" where
  "isspace c = List.member
     [CHR 0x09, CHR 0x0A, CHR 0x0B, CHR 0x0C, CHR 0x0D,
      CHR 0x1C, CHR 0x1D, CHR 0x1E, CHR 0x1F, CHR 0x20] c"

definition strip :: "string \<Rightarrow> string" where
  "strip s = rev (dropWhile isspace (rev (dropWhile isspace s)))"

section \<open>The NLTK builder\<close>

text \<open>
  The body of \<^verbatim>\<open>nltk_tokenize\<close> between the language check and \<^verbatim>\<open>tree.write\<close> (lines 54-80).
  \<^verbatim>\<open>sent_tokenize\<close> and \<^verbatim>\<open>word_tokenize\<close> belong to the NLTK library and are parameters:
  each takes the text and the Punkt language.
\<close>

type_synonym nltk_splitter = "string \<Rightarrow> string \<Rightarrow> string list"

definition nltk_word :: "nat \<Rightarrow> nat \<Rightarrow> nat \<times> string \<Rightarrow> w_elem" where
  "nltk_word i j kw =
     (case kw of (k, w) \<Rightarrow>
        \<lparr>w_id = w_format i j k, w_text = w, w_tree = None, w_lem = None\<rparr>)"

text \<open>One round of \<^verbatim>\<open>for s in sentences\<close>: a new \<^verbatim>\<open>s\<close> element with its \<^verbatim>\<open>w\<close> children.\<close>

definition nltk_sentence ::
  "nltk_splitter \<Rightarrow> string \<Rightarrow> nat \<Rightarrow> nat \<Rightarrow> s_elem list \<Rightarrow> string \<Rightarrow> s_elem list" where
  "nltk_sentence word_tokenize punkt_language i j sents s =
     sents @ [\<lparr>s_id = s_format i j,
               s_words = foldl (\<lambda>ws kw. ws @ [nltk_word i j kw]) []
                           (enumerate 1 (word_tokenize s punkt_language))\<rparr>]"

text \<open>
  One round of \<^verbatim>\<open>for line in f.readlines()\<close>. The state is \<open>(i, j, text)\<close>. In the source
  \<^verbatim>\<open>j += 1\<close> stands after the loop over the sentences of the line, not inside it.
\<close>

fun nltk_step ::
  "nltk_splitter \<Rightarrow> nltk_splitter \<Rightarrow> string \<Rightarrow> nat \<times> nat \<times> text_elem \<Rightarrow> string
     \<Rightarrow> nat \<times> nat \<times> text_elem" where
  "nltk_step sent_tokenize word_tokenize punkt_language (i, j, text) line =
     (let line = strip line in
      if line \<noteq> [] then
        (i, j + 1,
         upd_last (\<lambda>paragraph. paragraph\<lparr>p_sents :=
                     foldl (nltk_sentence word_tokenize punkt_language i j) (p_sents paragraph)
                       (sent_tokenize line punkt_language)\<rparr>) text)
      else (i + 1, 1, text @ [\<lparr>p_id = str (i + 1), p_sents = []\<rparr>]))"

definition nltk_tree ::
  "nltk_splitter \<Rightarrow> nltk_splitter \<Rightarrow> string \<Rightarrow> string list \<Rightarrow> text_elem" where
  "nltk_tree sent_tokenize word_tokenize punkt_language lines =
     snd (snd (foldl (nltk_step sent_tokenize word_tokenize punkt_language)
                 (1, 1, [\<lparr>p_id = str 1, p_sents = []\<rparr>]) lines))"

section \<open>The builder of the spaCy and Stanza pipelines\<close>

text \<open>
  A token as the pipeline returns it. The attribute-style token of the spaCy runtime is
  read through \<^verbatim>\<open>token.text\<close>, \<^verbatim>\<open>token.tag_\<close>, \<^verbatim>\<open>token.lemma_\<close>; the mapping-style token of
  the native Stanza runtime through \<^verbatim>\<open>token['text']\<close>, \<^verbatim>\<open>token['upos']\<close>, \<^verbatim>\<open>token['lemma']\<close>.
  The pipeline \<^verbatim>\<open>nlp\<close> is a parameter: \<open>nlp line\<close> is the value of \<^verbatim>\<open>nlp(line).to_dict()\<close>,
  the list of sentence-candidates of the line.
\<close>

record token =
  tok_text :: string
  attr_tag :: string
  attr_lemma :: string
  key_upos :: string
  key_lemma :: string

type_synonym pipeline = "string \<Rightarrow> token list list"

definition nlp_word :: "bool \<Rightarrow> nat \<Rightarrow> nat \<Rightarrow> nat \<times> token \<Rightarrow> w_elem" where
  "nlp_word stanza_unique i j kt =
     (case kt of (k, token) \<Rightarrow>
        if stanza_unique then
          \<lparr>w_id = w_format i j k, w_text = tok_text token,
           w_tree = Some (key_upos token), w_lem = Some (key_lemma token)\<rparr>
        else
          \<lparr>w_id = w_format i j k, w_text = tok_text token,
           w_tree = Some (attr_tag token), w_lem = Some (attr_lemma token)\<rparr>)"

text \<open>
  One round of \<^verbatim>\<open>for sent in doc.to_dict()\<close>. The state is the children of \<^verbatim>\<open>paragraph\<close>,
  \<^verbatim>\<open>j\<close> and \<^verbatim>\<open>start_new\<close>. The words go to \<^verbatim>\<open>sentence\<close>, the last \<^verbatim>\<open>s\<close> child, and
  \<^verbatim>\<open>enumerate(sent, start=1)\<close> numbers them from 1 for every candidate.
\<close>

fun nlp_sent ::
  "bool \<Rightarrow> nat \<Rightarrow> s_elem list \<times> nat \<times> bool \<Rightarrow> token list \<Rightarrow> s_elem list \<times> nat \<times> bool" where
  "nlp_sent stanza_unique i (sents, j, start_new) sent =
     (let j' = (if start_new then j + 1 else j);
          sents' = (if start_new then sents @ [\<lparr>s_id = s_format i j', s_words = []\<rparr>]
                    else sents);
          sents'' = upd_last (\<lambda>sentence. sentence\<lparr>s_words :=
                       foldl (\<lambda>ws kt. ws @ [nlp_word stanza_unique i j' kt]) (s_words sentence)
                         (enumerate 1 sent)\<rparr>) sents'
      in (sents'', j', length sent \<noteq> 1))"

text \<open>The body of \<^verbatim>\<open>if line:\<close>: \<^verbatim>\<open>start_new = True\<close> and \<^verbatim>\<open>j = 0\<close>, then the candidates.\<close>

definition nlp_line :: "bool \<Rightarrow> nat \<Rightarrow> s_elem list \<Rightarrow> token list list \<Rightarrow> s_elem list" where
  "nlp_line stanza_unique i sents doc =
     fst (foldl (nlp_sent stanza_unique i) (sents, 0, True) doc)"

text \<open>One round of \<^verbatim>\<open>for line in f.readlines()\<close>. The state is \<open>(i, text)\<close>.\<close>

fun nlp_step :: "pipeline \<Rightarrow> bool \<Rightarrow> nat \<times> text_elem \<Rightarrow> string \<Rightarrow> nat \<times> text_elem" where
  "nlp_step nlp stanza_unique (i, text) line =
     (let line = strip line in
      if line \<noteq> [] then
        (i, upd_last (\<lambda>paragraph. paragraph\<lparr>p_sents :=
                        nlp_line stanza_unique i (p_sents paragraph) (nlp line)\<rparr>) text)
      else (i + 1, text @ [\<lparr>p_id = str (i + 1), p_sents = []\<rparr>]))"

definition nlp_tree :: "pipeline \<Rightarrow> bool \<Rightarrow> string list \<Rightarrow> text_elem" where
  "nlp_tree nlp stanza_unique lines =
     snd (foldl (nlp_step nlp stanza_unique) (1, [\<lparr>p_id = str 1, p_sents = []\<rparr>]) lines)"

section \<open>Files, errors and the outside world\<close>

text \<open>
  The functions of \<^verbatim>\<open>tok.py\<close> read a text file, write a document, print through
  \<^verbatim>\<open>click.echo\<close> and start a shell command. A \<open>world\<close> holds the text files (a path
  to the list \<^verbatim>\<open>f.readlines()\<close> returns), the documents written by \<^verbatim>\<open>tree.write\<close> (a
  path to the tree; the serialisation to bytes is lxml's) and the log of the effects in
  the order they happened. A function returns its result, \<open>Inl\<close> for the exception it
  raises and \<open>Inr ()\<close> for a normal return, with the world it leaves.
\<close>

datatype error = ClickException string | FileNotFoundError string

datatype event = Echo string | Read_lines string | Write_tree string | Shell string

record world =
  files :: "string \<rightharpoonup> string list"
  documents :: "string \<rightharpoonup> text_elem"
  events :: "event list"

type_synonym outcome = "(error + unit) \<times> world"

definition click_echo :: "string \<Rightarrow> world \<Rightarrow> world" where
  "click_echo message w = w\<lparr>events := events w @ [Echo message]\<rparr>"

text \<open>
  \<^verbatim>\<open>..core.constants\<close> is not among the sources, so the constants the module imports
  from it are a parameter: the five backend selectors, of any type \<^verbatim>\<open>==\<close> compares, and
  the two dictionaries from a language to the Punkt language and to the spaCy model.
\<close>

record 't constants =
  UPLUG :: 't
  NLTK :: 't
  SPACY :: 't
  STANZA :: 't
  TREETAGGER :: 't
  NLTK_LANGUAGES :: "string \<rightharpoonup> string"
  SPACY_MODELS :: "string \<rightharpoonup> string"

text \<open>
  The result of a shell command as \<^verbatim>\<open>subprocess\<close> sees it: the exit status and what the
  process wrote to its standard output and standard error. The command itself is a
  parameter: it may change the world in any way (the redirection \<^verbatim>\<open>> file\<close> of the
  command line is the shell's work).
\<close>

record completed =
  returncode :: int
  std_out :: string
  std_err :: string

type_synonym shell = "string \<Rightarrow> world \<Rightarrow> completed \<times> world"

text \<open>
  The libraries: NLTK's two splitters; \<^verbatim>\<open>spacy.load\<close> followed by \<^verbatim>\<open>add_pipe\<close>, \<open>None\<close> when
  it raises \<^verbatim>\<open>OSError\<close>; \<^verbatim>\<open>stanza.download\<close>, \<open>False\<close> when it raises \<^verbatim>\<open>ValueError\<close>;
  \<^verbatim>\<open>spacy_stanza.load_pipeline\<close> followed by \<^verbatim>\<open>add_pipe\<close>, \<open>None\<close> when it raises
  \<^verbatim>\<open>ImportError\<close>; \<^verbatim>\<open>stanza.Pipeline\<close>; and the shell.
\<close>

record backends =
  sent_tokenize :: nltk_splitter
  word_tokenize :: nltk_splitter
  spacy_load :: "string \<Rightarrow> pipeline option"
  stanza_download :: "string \<Rightarrow> bool"
  spacy_stanza_load_pipeline :: "string \<Rightarrow> pipeline option"
  stanza_Pipeline :: "string \<Rightarrow> pipeline"
  run_shell :: shell

section \<open>The Uplug adapter\<close>

text \<open>
  \<^verbatim>\<open>shlex.quote\<close>: the empty string becomes two single quotes; a string of letters,
  digits and \<^verbatim>\<open>_@%+=:,./-\<close> is left as it is; any other string is put in single quotes,
  each single quote inside written as \<^verbatim>\<open>'"'"'\<close>.
\<close>

definition shell_safe :: "char \<Rightarrow> bool" where
  "shell_safe c =
     (let n = (of_char c :: nat) in
      (48 \<le> n \<and> n \<le> 57) \<or> (65 \<le> n \<and> n \<le> 90) \<or> (97 \<le> n \<and> n \<le> 122) \<or>
      List.member ''_@%+=:,./-'' c)"

definition shlex_quote :: "string \<Rightarrow> string" where
  "shlex_quote s =
     (if s = [] then [CHR 0x27, CHR 0x27]
      else if list_all shell_safe s then s
      else [CHR 0x27] @
           concat (map (\<lambda>c. if c = CHR 0x27
                             then [CHR 0x27, CHR 0x22, CHR 0x27, CHR 0x22, CHR 0x27]
                             else [c]) s) @
           [CHR 0x27])"

definition uplug_command :: "string \<Rightarrow> string \<Rightarrow> string \<Rightarrow> string" where
  "uplug_command language file_in file_out =
     ''uplug -f pre/basic pre/'' @ language @ ''/basic -in '' @ shlex_quote file_in @
     '' > '' @ shlex_quote file_out"

text \<open>
  \<^verbatim>\<open>subprocess.call(command, shell=True, stdout=open(os.devnull, 'w'), stderr=subprocess.STDOUT)\<close>
  runs the command with both streams sent to the null device and returns the exit
  status.
\<close>

definition subprocess_call :: "shell \<Rightarrow> string \<Rightarrow> world \<Rightarrow> int \<times> world" where
  "subprocess_call sh command w =
     (case sh command (w\<lparr>events := events w @ [Shell command]\<rparr>) of
        (result, w') \<Rightarrow> (returncode result, w'))"

definition uplug_tokenize :: "shell \<Rightarrow> string \<Rightarrow> string \<Rightarrow> string \<Rightarrow> world \<Rightarrow> outcome" where
  "uplug_tokenize sh file_in file_out language w =
     (case subprocess_call sh (uplug_command language file_in file_out) w of
        (status, w') \<Rightarrow> (Inr (), w'))"

section \<open>The in-process adapters\<close>

text \<open>
  \<^verbatim>\<open>if not punkt_language\<close> holds for a missing entry (\<^verbatim>\<open>dict.get\<close> returns \<^verbatim>\<open>None\<close>) and
  for an entry that is the empty string. \<^verbatim>\<open>open(file_in)\<close> raises for a missing file.
\<close>

definition nltk_tokenize ::
  "'t constants \<Rightarrow> backends \<Rightarrow> string \<Rightarrow> string \<Rightarrow> string \<Rightarrow> world \<Rightarrow> outcome" where
  "nltk_tokenize c b file_in file_out language w =
     (case NLTK_LANGUAGES c language of
        None \<Rightarrow>
          (Inl (ClickException (''Tokenization in NLTK not available for language '' @ language)), w)
      | Some punkt_language \<Rightarrow>
          if punkt_language = [] then
            (Inl (ClickException (''Tokenization in NLTK not available for language '' @ language)), w)
          else
            (case files w file_in of
               None \<Rightarrow> (Inl (FileNotFoundError file_in), w)
             | Some lines \<Rightarrow>
                 (Inr (),
                  w\<lparr>documents := (documents w)(file_out \<mapsto>
                       nltk_tree (sent_tokenize b) (word_tokenize b) punkt_language lines),
                    events := events w @ [Read_lines file_in, Write_tree file_out]\<rparr>)))"

definition nlp_process :: "pipeline \<Rightarrow> string \<Rightarrow> string \<Rightarrow> bool \<Rightarrow> world \<Rightarrow> outcome" where
  "nlp_process nlp file_in file_out stanza_unique w =
     (case files w file_in of
        None \<Rightarrow> (Inl (FileNotFoundError file_in), w)
      | Some lines \<Rightarrow>
          (Inr (),
           w\<lparr>documents := (documents w)(file_out \<mapsto> nlp_tree nlp stanza_unique lines),
             events := events w @ [Read_lines file_in, Write_tree file_out]\<rparr>))"

definition spacy_tokenize ::
  "'t constants \<Rightarrow> backends \<Rightarrow> string \<Rightarrow> string \<Rightarrow> string \<Rightarrow> world \<Rightarrow> outcome" where
  "spacy_tokenize c b file_in file_out language w =
     (case SPACY_MODELS c language of
        None \<Rightarrow>
          (Inl (ClickException (''Tokenization in Spacy not available for language '' @ language)), w)
      | Some spacy_model \<Rightarrow>
          if spacy_model = [] then
            (Inl (ClickException (''Tokenization in Spacy not available for language '' @ language)), w)
          else
            (case spacy_load b spacy_model of
               None \<Rightarrow>
                 (Inl (ClickException
                    (''Spacy model for language '' @ language @ '' not available: '' @
                     ''please download it first with the command `python -m spacy download '' @
                     spacy_model @ ''`'')), w)
             | Some nlp \<Rightarrow> nlp_process nlp file_in file_out False w))"

definition stanza_tokenize :: "backends \<Rightarrow> string \<Rightarrow> string \<Rightarrow> string \<Rightarrow> world \<Rightarrow> outcome" where
  "stanza_tokenize b file_in file_out language w =
     (if \<not> stanza_download b language then
        (Inl (ClickException (''Tokenization in Stanza not available for language '' @ language)), w)
      else
        (case spacy_stanza_load_pipeline b language of
           Some nlp \<Rightarrow> nlp_process nlp file_in file_out False w
         | None \<Rightarrow> nlp_process (stanza_Pipeline b language) file_in file_out True w))"

section \<open>The dispatcher\<close>

definition tokenize_single ::
  "'t constants \<Rightarrow> backends \<Rightarrow> string \<Rightarrow> string \<Rightarrow> string \<Rightarrow> 't \<Rightarrow> world \<Rightarrow> outcome" where
  "tokenize_single c b file_in file_out language tokenizer w =
     (if tokenizer = UPLUG c then
        uplug_tokenize (run_shell b) file_in file_out language
          (click_echo ''Using Uplug tokenization'' w)
      else if tokenizer = NLTK c then
        nltk_tokenize c b file_in file_out language (click_echo ''Using NLTK tokenization'' w)
      else if tokenizer = SPACY c then
        spacy_tokenize c b file_in file_out language (click_echo ''Using Spacy tokenization'' w)
      else if tokenizer = STANZA c then
        stanza_tokenize b file_in file_out language (click_echo ''Using Stanza tokenization'' w)
      else if tokenizer = TREETAGGER c then
        (Inr (), click_echo ''Using TreeTagger tokenization'' w)
      else (Inr (), w))"

section \<open>Example inputs\<close>

text \<open>
  Backends for the concrete runs below: a pipeline and two splitters that answer the
  example lines of the specification and nothing else, and a token whose tag and lemma
  are fixed.
\<close>

definition plain :: "string \<Rightarrow> token" where
  "plain s = \<lparr>tok_text = s, attr_tag = ''T'', attr_lemma = s, key_upos = ''U'', key_lemma = s\<rparr>"

definition example_pipeline :: pipeline where
  "example_pipeline line =
     (if line = ''Mr'' then [[plain ''Mr'']]
      else if line = ''Smith left.'' then [[plain ''Smith'', plain ''left'', plain ''.'']]
      else if line = ''Mr Smith left.'' then
        [[plain ''Mr''], [plain ''Smith'', plain ''left'', plain ''.'']]
      else if line = ''Hello world. Good bye.'' then
        [[plain ''Hello'', plain ''world'', plain ''.''],
         [plain ''Good'', plain ''bye'', plain ''.'']]
      else [])"

definition example_sent_tokenize :: nltk_splitter where
  "example_sent_tokenize line language =
     (if line = ''Hello world. Good bye.'' then [''Hello world.'', ''Good bye.'']
      else if line = ''Mr Smith left.'' then [''Mr'', ''Smith left.'']
      else [line])"

definition example_word_tokenize :: nltk_splitter where
  "example_word_tokenize s language =
     (if s = ''Hello world.'' then [''Hello'', ''world'', ''.'']
      else if s = ''Good bye.'' then [''Good'', ''bye'', ''.'']
      else if s = ''Smith left.'' then [''Smith'', ''left'', ''.'']
      else [s])"

definition failing_shell :: shell where
  "failing_shell command w =
     (\<lparr>returncode = 127, std_out = [], std_err = ''sh: 1: uplug: not found''\<rparr>, w)"

definition quiet_shell :: shell where
  "quiet_shell command w = (\<lparr>returncode = 0, std_out = [], std_err = []\<rparr>, w)"

definition example_constants :: "string constants" where
  "example_constants =
     \<lparr>UPLUG = ''uplug'', NLTK = ''nltk'', SPACY = ''spacy'', STANZA = ''stanza'',
      TREETAGGER = ''treetagger'',
      NLTK_LANGUAGES = [''en'' \<mapsto> ''english''],
      SPACY_MODELS = [''en'' \<mapsto> ''en_core_web_sm'']\<rparr>"

definition example_backends :: backends where
  "example_backends =
     \<lparr>sent_tokenize = example_sent_tokenize, word_tokenize = example_word_tokenize,
      spacy_load = (\<lambda>model. Some example_pipeline),
      stanza_download = (\<lambda>language. True),
      spacy_stanza_load_pipeline = (\<lambda>language. None),
      stanza_Pipeline = (\<lambda>language. example_pipeline),
      run_shell = failing_shell\<rparr>"

definition example_world :: world where
  "example_world =
     \<lparr>files = [''in.txt'' \<mapsto> [''Mr'', '''', ''Smith left.'']],
      documents = Map.empty, events = []\<rparr>"

section \<open>Invariants of the loops\<close>

text \<open>The paragraphs built so far are numbered 1 to \<open>i\<close>, the counter of the loop.\<close>

definition numbered :: "nat \<Rightarrow> text_elem \<Rightarrow> bool" where
  "numbered i ps = (ps \<noteq> [] \<and> length ps = i \<and> map p_id ps = map str [1..<Suc i])"

section \<open>Helper lemmas\<close>

lemma upd_last_snoc: "upd_last f (xs @ [x]) = xs @ [f x]"
  by (induction f xs rule: upd_last.induct) auto

lemma foldl_snoc_map: "foldl (\<lambda>acc x. acc @ [f x]) acc xs = acc @ map f xs"
  by (induction xs arbitrary: acc) auto

subsection \<open>Decimal numerals are injective\<close>

lemma str_nonempty: "str n \<noteq> []"
  by (subst str.simps) simp

lemma digit_char_inj: "a < 10 \<Longrightarrow> b < 10 \<Longrightarrow> digit_char a = digit_char b \<Longrightarrow> a = b"
proof -
  assume a: "a < 10" and b: "b < 10" and e: "digit_char a = digit_char b"
  have "a \<in> {0,1,2,3,4,5,6,7,8,9}" using a by auto
  moreover have "b \<in> {0,1,2,3,4,5,6,7,8,9}" using b by auto
  ultimately show ?thesis using e by (auto simp: digit_char_def)
qed

lemma str_inj: "str n = str m \<Longrightarrow> n = m"
proof (induction n arbitrary: m rule: str.induct)
  case (1 n)
  show ?case
  proof (cases "n < 10")
    case True
    then have sn: "str n = [digit_char n]" by (subst str.simps) simp
    have "m < 10"
    proof (rule ccontr)
      assume "\<not> m < 10"
      then have "str m = str (m div 10) @ [digit_char (m mod 10)]" by (subst str.simps) simp
      with sn "1.prems" show False by (simp add: str_nonempty)
    qed
    then have sm: "str m = [digit_char m]" by (subst str.simps) simp
    from sn sm "1.prems" have "digit_char n = digit_char m" by simp
    from digit_char_inj [OF True \<open>m < 10\<close> this] show ?thesis .
  next
    case False
    then have sn: "str n = str (n div 10) @ [digit_char (n mod 10)]" by (subst str.simps) simp
    have m: "\<not> m < 10"
    proof
      assume "m < 10"
      then have "str m = [digit_char m]" by (subst str.simps) simp
      with sn "1.prems" str_nonempty [of "n div 10"] show False by simp
    qed
    then have "str m = str (m div 10) @ [digit_char (m mod 10)]" by (subst str.simps) simp
    with sn "1.prems" have e: "str (n div 10) = str (m div 10)"
      and d: "digit_char (n mod 10) = digit_char (m mod 10)" by simp_all
    from "1.IH" [OF False e] have "n div 10 = m div 10" .
    moreover from d have "n mod 10 = m mod 10" by (intro digit_char_inj) simp_all
    ultimately show ?thesis by (metis div_mult_mod_eq)
  qed
qed

subsection \<open>The numbering of the paragraphs is an invariant of both loops\<close>

lemma numbered_snoc:
  "numbered i ps \<Longrightarrow> numbered (Suc i) (ps @ [\<lparr>p_id = str (Suc i), p_sents = []\<rparr>])"
  by (simp add: numbered_def)

lemma numbered_upd_last:
  "numbered i ps \<Longrightarrow> numbered i (upd_last (\<lambda>p. p\<lparr>p_sents := g p\<rparr>) ps)"
  by (cases ps rule: rev_cases) (simp_all add: numbered_def upd_last_snoc)

lemma numbered_distinct: "numbered i ps \<Longrightarrow> distinct (map p_id ps)"
  by (auto simp: numbered_def distinct_map inj_on_def dest: str_inj)

lemma nlp_step_numbered:
  "numbered (fst st) (snd st) \<Longrightarrow>
   numbered (fst (nlp_step nlp su st line)) (snd (nlp_step nlp su st line))"
  by (cases st) (simp add: Let_def numbered_snoc numbered_upd_last)

lemma nlp_fold_numbered:
  "numbered (fst st) (snd st) \<Longrightarrow>
   numbered (fst (foldl (nlp_step nlp su) st lines)) (snd (foldl (nlp_step nlp su) st lines))"
  by (induction lines arbitrary: st) (simp_all add: nlp_step_numbered)

lemma nlp_tree_numbered:
  "numbered (length (nlp_tree nlp su lines)) (nlp_tree nlp su lines)"
proof -
  have "numbered (fst (1::nat, [\<lparr>p_id = str 1, p_sents = []\<rparr>]))
          (snd (1::nat, [\<lparr>p_id = str 1, p_sents = []\<rparr>]))"
    by (simp add: numbered_def)
  from nlp_fold_numbered [OF this] show ?thesis
    unfolding nlp_tree_def numbered_def by simp
qed

lemma nltk_step_numbered:
  "numbered (fst st) (snd (snd st)) \<Longrightarrow>
   numbered (fst (nltk_step st' wt pl st line)) (snd (snd (nltk_step st' wt pl st line)))"
  by (cases st) (simp add: Let_def numbered_snoc numbered_upd_last)

lemma nltk_fold_numbered:
  "numbered (fst st) (snd (snd st)) \<Longrightarrow>
   numbered (fst (foldl (nltk_step st' wt pl) st lines))
     (snd (snd (foldl (nltk_step st' wt pl) st lines)))"
  by (induction lines arbitrary: st) (simp_all add: nltk_step_numbered)

lemma nltk_tree_numbered:
  "numbered (length (nltk_tree st wt pl lines)) (nltk_tree st wt pl lines)"
proof -
  have "numbered (fst (1::nat, 1::nat, [\<lparr>p_id = str 1, p_sents = []\<rparr>]))
          (snd (snd (1::nat, 1::nat, [\<lparr>p_id = str 1, p_sents = []\<rparr>])))"
    by (simp add: numbered_def)
  from nltk_fold_numbered [OF this] show ?thesis
    unfolding nltk_tree_def numbered_def by simp
qed

subsection \<open>What the file-level functions write\<close>

lemma nlp_process_writes:
  "files w file_in = Some lines \<Longrightarrow>
   nlp_process nlp file_in file_out su w =
     (Inr (), w\<lparr>documents := (documents w)(file_out \<mapsto> nlp_tree nlp su lines),
                events := events w @ [Read_lines file_in, Write_tree file_out]\<rparr>)"
  by (simp add: nlp_process_def)

lemma nltk_tokenize_writes:
  "NLTK_LANGUAGES c language = Some pl \<Longrightarrow> pl \<noteq> [] \<Longrightarrow> files w file_in = Some lines \<Longrightarrow>
   nltk_tokenize c b file_in file_out language w =
     (Inr (), w\<lparr>documents := (documents w)(file_out \<mapsto>
                  nltk_tree (sent_tokenize b) (word_tokenize b) pl lines),
                events := events w @ [Read_lines file_in, Write_tree file_out]\<rparr>)"
  by (simp add: nltk_tokenize_def)

subsection \<open>One sentence-candidate\<close>

lemma nlp_sent_new:
  "nlp_sent su i (sents, j, True) c =
     (sents @ [\<lparr>s_id = s_format i (Suc j), s_words = map (nlp_word su i (Suc j)) (enumerate 1 c)\<rparr>],
      Suc j, length c \<noteq> 1)"
  by (simp add: Let_def upd_last_snoc foldl_snoc_map)

lemma nlp_sent_merge:
  "nlp_sent su i (sents @ [s], j, False) c =
     (sents @ [s\<lparr>s_words := s_words s @ map (nlp_word su i j) (enumerate 1 c)\<rparr>],
      j, length c \<noteq> 1)"
  by (simp add: Let_def upd_last_snoc foldl_snoc_map)

declare nlp_sent.simps [simp del]

text \<open>Whenever \<open>start_new\<close> is false, the paragraph has a sentence.\<close>

lemma nlp_sent_opened:
  "sn \<or> sents \<noteq> [] \<Longrightarrow> nlp_sent su i (sents, j, sn) c = (sents', j', sn') \<Longrightarrow> sents' \<noteq> []"
  by (cases sn; cases sents rule: rev_cases) (auto simp: nlp_sent_new nlp_sent_merge)

lemma nlp_fold_opened:
  "sn \<or> sents \<noteq> [] \<Longrightarrow> foldl (nlp_sent su i) (sents, j, sn) cs = (sents', j', sn') \<Longrightarrow>
   sn' \<or> sents' \<noteq> []"
proof (induction cs arbitrary: sents j sn)
  case Nil
  then show ?case by auto
next
  case (Cons c cs)
  obtain s1 j1 sn1 where e: "nlp_sent su i (sents, j, sn) c = (s1, j1, sn1)"
    by (cases "nlp_sent su i (sents, j, sn) c") auto
  from nlp_sent_opened [OF Cons.prems(1) e] have "sn1 \<or> s1 \<noteq> []" by simp
  from Cons.IH [OF this] Cons.prems(2) e show ?case by simp
qed

text \<open>The first sentence opened in a line.\<close>

lemma nlp_fold_first:
  "\<exists>ws ss. fst (foldl (nlp_sent su i) (old @ s # rest, j, sn) cs) =
     old @ s\<lparr>s_words := s_words s @ ws\<rparr> # ss"
proof (induction cs arbitrary: s rest j sn)
  case Nil
  have "old @ s # rest = old @ s\<lparr>s_words := s_words s @ []\<rparr> # rest" by simp
  then show ?case by (metis foldl_Nil fst_conv)
next
  case (Cons c cs)
  show ?case
  proof (cases sn)
    case True
    have "nlp_sent su i (old @ s # rest, j, True) c =
       (old @ s # (rest @ [\<lparr>s_id = s_format i (Suc j),
           s_words = map (nlp_word su i (Suc j)) (enumerate 1 c)\<rparr>]), Suc j, length c \<noteq> 1)"
      using nlp_sent_new [of su i "old @ s # rest" j c] by simp
    with True Cons.IH show ?thesis by simp
  next
    case False
    show ?thesis
    proof (cases rest rule: rev_cases)
      case Nil
      have "nlp_sent su i (old @ [s], j, False) c =
         (old @ [s\<lparr>s_words := s_words s @ map (nlp_word su i j) (enumerate 1 c)\<rparr>], j, length c \<noteq> 1)"
        by (rule nlp_sent_merge)
      moreover
      from Cons.IH [of "s\<lparr>s_words := s_words s @ map (nlp_word su i j) (enumerate 1 c)\<rparr>" "[]" j "length c \<noteq> 1"]
      obtain ws ss where "fst (foldl (nlp_sent su i)
          (old @ [s\<lparr>s_words := s_words s @ map (nlp_word su i j) (enumerate 1 c)\<rparr>], j, length c \<noteq> 1) cs) =
          old @ s\<lparr>s_words := s_words s @ map (nlp_word su i j) (enumerate 1 c) @ ws\<rparr> # ss"
        by auto
      ultimately show ?thesis using False Nil by auto
    next
      case (snoc ys y)
      have "nlp_sent su i ((old @ s # ys) @ [y], j, False) c =
         ((old @ s # ys) @ [y\<lparr>s_words := s_words y @ map (nlp_word su i j) (enumerate 1 c)\<rparr>], j, length c \<noteq> 1)"
        by (rule nlp_sent_merge)
      with False snoc Cons.IH show ?thesis by simp
    qed
  qed
qed

lemma nlp_line_first:
  "\<exists>ws ss. nlp_line su i old (c # cs) =
     old @ \<lparr>s_id = s_format i 1, s_words = map (nlp_word su i 1) (enumerate 1 c) @ ws\<rparr> # ss"
proof -
  have "nlp_sent su i (old, 0, True) c =
     (old @ [\<lparr>s_id = s_format i 1, s_words = map (nlp_word su i 1) (enumerate 1 c)\<rparr>], 1, length c \<noteq> 1)"
    by (simp add: nlp_sent_new)
  moreover from nlp_fold_first [of su i old
      "\<lparr>s_id = s_format i 1, s_words = map (nlp_word su i 1) (enumerate 1 c)\<rparr>" "[]" 1 "length c \<noteq> 1" cs]
  obtain ws ss where "fst (foldl (nlp_sent su i)
       (old @ [\<lparr>s_id = s_format i 1, s_words = map (nlp_word su i 1) (enumerate 1 c)\<rparr>], 1, length c \<noteq> 1) cs) =
     old @ \<lparr>s_id = s_format i 1, s_words = map (nlp_word su i 1) (enumerate 1 c) @ ws\<rparr> # ss"
    by auto
  ultimately show ?thesis by (auto simp: nlp_line_def)
qed

lemma length_upd_last: "length (upd_last f xs) = length xs"
  by (induction f xs rule: upd_last.induct) auto

lemma map_w_text_nlp_word:
  "map (w_text \<circ> nlp_word su i j) (enumerate n c) = map tok_text c"
  by (induction c arbitrary: n) (auto simp: nlp_word_def)

lemma nlp_line_merge:
  assumes "length c = 1"
  shows "\<exists>ys y j. nlp_line su i sents (pre @ [c]) = ys @ [y] \<and>
           nlp_line su i sents (pre @ [c, c']) =
             ys @ [y\<lparr>s_words := s_words y @ map (nlp_word su i j) (enumerate 1 c')\<rparr>]"
proof -
  obtain ss0 j0 sn0 where s0: "foldl (nlp_sent su i) (sents, 0, True) pre = (ss0, j0, sn0)"
    by (cases "foldl (nlp_sent su i) (sents, 0, True) pre") auto
  have op: "sn0 \<or> ss0 \<noteq> []" using nlp_fold_opened [OF _ s0] by simp
  have "\<exists>ys y j1. nlp_sent su i (ss0, j0, sn0) c = (ys @ [y], j1, False)"
  proof (cases sn0)
    case True
    with assms show ?thesis by (simp add: nlp_sent_new)
  next
    case False
    with op obtain xs x where "ss0 = xs @ [x]" by (cases ss0 rule: rev_cases) auto
    with False assms show ?thesis by (simp add: nlp_sent_merge)
  qed
  then obtain ys y j1 where s1: "nlp_sent su i (ss0, j0, sn0) c = (ys @ [y], j1, False)" by blast
  have a: "nlp_line su i sents (pre @ [c]) = ys @ [y]"
    by (simp add: nlp_line_def s0 s1)
  have b: "nlp_line su i sents (pre @ [c, c']) =
      ys @ [y\<lparr>s_words := s_words y @ map (nlp_word su i j1) (enumerate 1 c')\<rparr>]"
    by (simp add: nlp_line_def s0 s1 nlp_sent_merge)
  from a b show ?thesis by blast
qed

lemma nltk_sentences: 
  "foldl (nltk_sentence wt pl i j) sents ss =
     sents @ map (\<lambda>s. \<lparr>s_id = s_format i j,
                        s_words = map (nltk_word i j) (enumerate 1 (wt s pl))\<rparr>) ss"
  by (induction ss arbitrary: sents) (simp_all add: nltk_sentence_def foldl_snoc_map)

subsection \<open>One line of input\<close>

lemma nlp_step_blank:
  "strip b = [] \<Longrightarrow>
   nlp_step nlp su (i, tx) b = (Suc i, tx @ [\<lparr>p_id = str (Suc i), p_sents = []\<rparr>])"
  by simp

lemma nlp_step_line:
  "strip l \<noteq> [] \<Longrightarrow>
   nlp_step nlp su (i, tx @ [p]) l =
     (i, tx @ [p\<lparr>p_sents := nlp_line su i (p_sents p) (nlp (strip l))\<rparr>])"
  by (simp add: upd_last_snoc)

lemma nltk_step_blank:
  "strip b = [] \<Longrightarrow>
   nltk_step st wt pl (i, j, tx) b = (Suc i, 1, tx @ [\<lparr>p_id = str (Suc i), p_sents = []\<rparr>])"
  by simp

lemma nltk_step_line:
  "strip l \<noteq> [] \<Longrightarrow>
   nltk_step st wt pl (i, j, tx @ [p]) l =
     (i, Suc j, tx @ [p\<lparr>p_sents := p_sents p @
        map (\<lambda>s. \<lparr>s_id = s_format i j, s_words = map (nltk_word i j) (enumerate 1 (wt s pl))\<rparr>)
          (st (strip l) pl)\<rparr>])"
  by (simp add: upd_last_snoc nltk_sentences)

declare nlp_step.simps [simp del] nltk_step.simps [simp del]

lemma nlp_fold_prefix:
  "\<exists>ps. snd (foldl (nlp_step nlp su) (i, tx @ [p]) ls) = tx @ ps \<and> ps \<noteq> []"
proof (induction ls arbitrary: i tx p)
  case Nil
  show ?case by simp
next
  case (Cons l ls)
  show ?case
  proof (cases "strip l = []")
    case True
    from Cons.IH [of "Suc i" "tx @ [p]" "\<lparr>p_id = str (Suc i), p_sents = []\<rparr>"]
    obtain ps where "snd (foldl (nlp_step nlp su)
        (Suc i, (tx @ [p]) @ [\<lparr>p_id = str (Suc i), p_sents = []\<rparr>]) ls) = (tx @ [p]) @ ps"
      by blast
    with True show ?thesis by (simp add: nlp_step_blank)
  next
    case False
    with Cons.IH show ?thesis by (simp add: nlp_step_line)
  qed
qed

lemma nltk_fold_prefix:
  "\<exists>ps. snd (snd (foldl (nltk_step st wt pl) (i, j, tx @ [p]) ls)) = tx @ ps \<and> ps \<noteq> []"
proof (induction ls arbitrary: i j tx p)
  case Nil
  show ?case by simp
next
  case (Cons l ls)
  show ?case
  proof (cases "strip l = []")
    case True
    from Cons.IH [of "Suc i" 1 "tx @ [p]" "\<lparr>p_id = str (Suc i), p_sents = []\<rparr>"]
    obtain ps where "snd (snd (foldl (nltk_step st wt pl)
        (Suc i, 1, (tx @ [p]) @ [\<lparr>p_id = str (Suc i), p_sents = []\<rparr>]) ls)) = (tx @ [p]) @ ps"
      by blast
    with True show ?thesis by (simp add: nltk_step_blank)
  next
    case False
    with Cons.IH show ?thesis by (simp add: nltk_step_line)
  qed
qed

lemma nlp_state:
  "foldl (nlp_step nlp su) (Suc 0, [\<lparr>p_id = str (Suc 0), p_sents = []\<rparr>]) lines =
     (length (nlp_tree nlp su lines), nlp_tree nlp su lines)"
proof -
  have "numbered (fst (1::nat, [\<lparr>p_id = str 1, p_sents = []\<rparr>]))
          (snd (1::nat, [\<lparr>p_id = str 1, p_sents = []\<rparr>]))"
    by (simp add: numbered_def)
  from nlp_fold_numbered [OF this, of nlp su lines] show ?thesis
    by (simp add: nlp_tree_def numbered_def prod_eq_iff)
qed

lemma nltk_state:
  "\<exists>j. foldl (nltk_step st wt pl) (Suc 0, Suc 0, [\<lparr>p_id = str (Suc 0), p_sents = []\<rparr>]) lines =
     (length (nltk_tree st wt pl lines), j, nltk_tree st wt pl lines)"
proof -
  have "numbered (fst (1::nat, 1::nat, [\<lparr>p_id = str 1, p_sents = []\<rparr>]))
          (snd (snd (1::nat, 1::nat, [\<lparr>p_id = str 1, p_sents = []\<rparr>])))"
    by (simp add: numbered_def)
  from nltk_fold_numbered [OF this, of st wt pl lines] show ?thesis
    by (simp add: nltk_tree_def numbered_def prod_eq_iff)
qed

lemma nlp_tree_append:
  "nlp_tree nlp su (ls @ ls') =
     snd (foldl (nlp_step nlp su) (length (nlp_tree nlp su ls), nlp_tree nlp su ls) ls')"
  by (simp add: nlp_tree_def [of nlp su "ls @ ls'"] nlp_state)

lemma nltk_tree_append:
  "\<exists>j. nltk_tree st wt pl (ls @ ls') =
     snd (snd (foldl (nltk_step st wt pl)
                 (length (nltk_tree st wt pl ls), j, nltk_tree st wt pl ls) ls'))"
  using nltk_state [of st wt pl ls] by (auto simp: nltk_tree_def [of st wt pl "ls @ ls'"])

lemma nlp_fold_count:
  "length (snd (foldl (nlp_step nlp su) (i, tx) ls)) =
     length tx + length (filter (\<lambda>l. strip l = []) ls)"
proof (induction ls arbitrary: i tx)
  case Nil
  show ?case by simp
next
  case (Cons l ls)
  show ?case
  proof (cases "strip l = []")
    case True
    with Cons.IH show ?thesis by (simp add: nlp_step_blank)
  next
    case False
    with Cons.IH show ?thesis by (simp add: nlp_step.simps Let_def length_upd_last)
  qed
qed

lemma nltk_fold_count:
  "length (snd (snd (foldl (nltk_step st wt pl) (i, j, tx) ls))) =
     length tx + length (filter (\<lambda>l. strip l = []) ls)"
proof (induction ls arbitrary: i j tx)
  case Nil
  show ?case by simp
next
  case (Cons l ls)
  show ?case
  proof (cases "strip l = []")
    case True
    with Cons.IH show ?thesis by (simp add: nltk_step_blank)
  next
    case False
    with Cons.IH show ?thesis by (simp add: nltk_step.simps Let_def length_upd_last)
  qed
qed

section \<open>Paragraph numbering\<close>

text \<open>
  Claim C7. For every list of input lines, the empty one included, the tree built by
  \<^verbatim>\<open>nltk_tokenize\<close> and the tree built by \<^verbatim>\<open>nlp_process\<close> have at least one \<^verbatim>\<open>p\<close> element,
  and the ids of the \<^verbatim>\<open>p\<close> elements are, in order, the decimal numerals of 1, 2, ..., n,
  where n is the number of \<^verbatim>\<open>p\<close> elements; no id occurs twice. (\<open>nltk_tree\<close> and
  \<open>nlp_tree\<close> are the trees the two functions write, by \<open>nltk_tokenize_writes\<close> and
  \<open>nlp_process_writes\<close>.)
\<close>

theorem paragraph_ids_contiguous:
  "nltk_tree st wt pl lines \<noteq> [] \<and>
   map p_id (nltk_tree st wt pl lines) = map str [1..<Suc (length (nltk_tree st wt pl lines))] \<and>
   distinct (map p_id (nltk_tree st wt pl lines)) \<and>
   nlp_tree nlp su lines \<noteq> [] \<and>
   map p_id (nlp_tree nlp su lines) = map str [1..<Suc (length (nlp_tree nlp su lines))] \<and>
   distinct (map p_id (nlp_tree nlp su lines))"
  using nltk_tree_numbered [of st wt pl lines] nlp_tree_numbered [of nlp su lines]
    numbered_distinct [of "length (nltk_tree st wt pl lines)" "nltk_tree st wt pl lines"]
    numbered_distinct [of "length (nlp_tree nlp su lines)" "nlp_tree nlp su lines"]
  by (simp add: numbered_def)

theorem paragraph_ids_contiguous_witness:
  "map p_id (nltk_tree example_sent_tokenize example_word_tokenize ''english''
               [''Mr'', '''', '' '', ''Smith left.'']) = [''1'', ''2'', ''3''] \<and>
   map p_id (nlp_tree example_pipeline False [''Mr'', '''', '' '', ''Smith left.'']) =
     [''1'', ''2'', ''3''] \<and>
   map p_id (nlp_tree example_pipeline False []) = [''1'']"
proof -
  have a: "length (nltk_tree example_sent_tokenize example_word_tokenize ''english''
               [''Mr'', '''', '' '', ''Smith left.'']) = 3"
    by code_simp
  have b: "length (nlp_tree example_pipeline False [''Mr'', '''', '' '', ''Smith left.'']) = 3"
    by code_simp
  have c: "length (nlp_tree example_pipeline False []) = 1"
    by code_simp
  have s: "map str [1..<Suc 3] = [''1'', ''2'', ''3'']" "map str [1..<Suc 1] = [''1'']"
    by code_simp+
  show ?thesis
    using paragraph_ids_contiguous [of example_sent_tokenize example_word_tokenize "''english''"
        "[''Mr'', '''', '' '', ''Smith left.'']" example_pipeline False]
      paragraph_ids_contiguous [of example_sent_tokenize example_word_tokenize "''english''"
        "[]" example_pipeline False]
    by (simp only: a b c s)
qed

section \<open>Blank lines\<close>

text \<open>
  Claim C9. A line that is empty after \<^verbatim>\<open>strip()\<close> always appends a new \<^verbatim>\<open>p\<close> element, in
  \<^verbatim>\<open>nlp_process\<close> and in \<^verbatim>\<open>nltk_tokenize\<close> alike. After a blank line \<open>b\<close> the tree is the
  tree before it with one more \<^verbatim>\<open>p\<close> element, which has no sentence and the next index
  (so a trailing blank line leaves an empty last paragraph). When a second blank line
  \<open>b'\<close> follows at once, the paragraph opened by \<open>b\<close> is still empty in the final
  tree, whatever lines come after, and keeps its index. The number of \<^verbatim>\<open>p\<close> elements is
  one more than the number of blank lines, so every empty paragraph uses up an index.
\<close>

theorem blank_lines_open_paragraphs:
  assumes "strip b = []" and "strip b' = []"
  shows
   "nlp_tree nlp su (pre @ [b]) =
      nlp_tree nlp su pre @ [\<lparr>p_id = str (Suc (length (nlp_tree nlp su pre))), p_sents = []\<rparr>] \<and>
    nlp_tree nlp su (pre @ b # b' # post) ! length (nlp_tree nlp su pre) =
      \<lparr>p_id = str (Suc (length (nlp_tree nlp su pre))), p_sents = []\<rparr> \<and>
    length (nlp_tree nlp su lines) = Suc (length (filter (\<lambda>l. strip l = []) lines)) \<and>
    nltk_tree st wt pl (pre @ [b]) =
      nltk_tree st wt pl pre @ [\<lparr>p_id = str (Suc (length (nltk_tree st wt pl pre))), p_sents = []\<rparr>] \<and>
    nltk_tree st wt pl (pre @ b # b' # post) ! length (nltk_tree st wt pl pre) =
      \<lparr>p_id = str (Suc (length (nltk_tree st wt pl pre))), p_sents = []\<rparr> \<and>
    length (nltk_tree st wt pl lines) = Suc (length (filter (\<lambda>l. strip l = []) lines))"
proof -
  let ?T = "nlp_tree nlp su pre" and ?n = "length (nlp_tree nlp su pre)"
  let ?U = "nltk_tree st wt pl pre" and ?m = "length (nltk_tree st wt pl pre)"
  have a: "nlp_tree nlp su (pre @ [b]) = ?T @ [\<lparr>p_id = str (Suc ?n), p_sents = []\<rparr>]"
    using assms(1) nlp_tree_append [of nlp su pre "[b]"] by (simp add: nlp_step_blank)
  have "nlp_tree nlp su (pre @ b # b' # post) =
      snd (foldl (nlp_step nlp su)
        (Suc (Suc ?n), (?T @ [\<lparr>p_id = str (Suc ?n), p_sents = []\<rparr>]) @
            [\<lparr>p_id = str (Suc (Suc ?n)), p_sents = []\<rparr>]) post)"
    using assms nlp_tree_append [of nlp su pre "b # b' # post"] by (simp add: nlp_step_blank)
  with nlp_fold_prefix [of nlp su "Suc (Suc ?n)" "?T @ [\<lparr>p_id = str (Suc ?n), p_sents = []\<rparr>]"
      "\<lparr>p_id = str (Suc (Suc ?n)), p_sents = []\<rparr>" post]
  obtain ps where "nlp_tree nlp su (pre @ b # b' # post) =
      (?T @ [\<lparr>p_id = str (Suc ?n), p_sents = []\<rparr>]) @ ps" by auto
  then have b: "nlp_tree nlp su (pre @ b # b' # post) ! ?n = \<lparr>p_id = str (Suc ?n), p_sents = []\<rparr>"
    by (simp add: nth_append)
  have c: "length (nlp_tree nlp su lines) = Suc (length (filter (\<lambda>l. strip l = []) lines))"
    by (simp add: nlp_tree_def nlp_fold_count)
  obtain j where j: "nltk_tree st wt pl (pre @ [b]) =
     snd (snd (foldl (nltk_step st wt pl) (?m, j, ?U) [b]))"
    using nltk_tree_append [of st wt pl pre "[b]"] by blast
  have d: "nltk_tree st wt pl (pre @ [b]) = ?U @ [\<lparr>p_id = str (Suc ?m), p_sents = []\<rparr>]"
    using assms(1) j by (simp add: nltk_step_blank)
  obtain j' where "nltk_tree st wt pl (pre @ b # b' # post) =
     snd (snd (foldl (nltk_step st wt pl) (?m, j', ?U) (b # b' # post)))"
    using nltk_tree_append [of st wt pl pre "b # b' # post"] by blast
  then have "nltk_tree st wt pl (pre @ b # b' # post) =
      snd (snd (foldl (nltk_step st wt pl)
        (Suc (Suc ?m), 1, (?U @ [\<lparr>p_id = str (Suc ?m), p_sents = []\<rparr>]) @
            [\<lparr>p_id = str (Suc (Suc ?m)), p_sents = []\<rparr>]) post))"
    using assms by (simp add: nltk_step_blank)
  with nltk_fold_prefix [of st wt pl "Suc (Suc ?m)" 1 "?U @ [\<lparr>p_id = str (Suc ?m), p_sents = []\<rparr>]"
      "\<lparr>p_id = str (Suc (Suc ?m)), p_sents = []\<rparr>" post]
  obtain qs where "nltk_tree st wt pl (pre @ b # b' # post) =
      (?U @ [\<lparr>p_id = str (Suc ?m), p_sents = []\<rparr>]) @ qs" by auto
  then have e: "nltk_tree st wt pl (pre @ b # b' # post) ! ?m = \<lparr>p_id = str (Suc ?m), p_sents = []\<rparr>"
    by (simp add: nth_append)
  have f: "length (nltk_tree st wt pl lines) = Suc (length (filter (\<lambda>l. strip l = []) lines))"
    by (simp add: nltk_tree_def nltk_fold_count)
  from a b c d e f show ?thesis by blast
qed

theorem blank_lines_open_paragraphs_witness:
  "strip '''' = [] \<and> strip '' '' = [] \<and>
   nlp_tree example_pipeline False ([''Mr''] @ ['''']) =
     nlp_tree example_pipeline False [''Mr''] @ [\<lparr>p_id = ''2'', p_sents = []\<rparr>] \<and>
   nlp_tree example_pipeline False ([''Mr''] @ '''' # '' '' # [''Smith left.'']) ! 1 =
     \<lparr>p_id = ''2'', p_sents = []\<rparr> \<and>
   length (nlp_tree example_pipeline False [''Mr'', '''', '' '', ''Smith left.'', '''']) = 4 \<and>
   nltk_tree example_sent_tokenize example_word_tokenize ''english'' ([''Mr''] @ ['''']) =
     nltk_tree example_sent_tokenize example_word_tokenize ''english'' [''Mr''] @
       [\<lparr>p_id = ''2'', p_sents = []\<rparr>] \<and>
   nltk_tree example_sent_tokenize example_word_tokenize ''english''
       ([''Mr''] @ '''' # '' '' # [''Smith left.'']) ! 1 = \<lparr>p_id = ''2'', p_sents = []\<rparr> \<and>
   length (nltk_tree example_sent_tokenize example_word_tokenize ''english''
       [''Mr'', '''', '' '', ''Smith left.'', '''']) = 4"
proof -
  have h: "strip '''' = []" "strip '' '' = []" by code_simp+
  have n: "length (nlp_tree example_pipeline False [''Mr'']) = 1"
    "length (nltk_tree example_sent_tokenize example_word_tokenize ''english'' [''Mr'']) = 1"
    by code_simp+
  have s: "str (Suc 1) = ''2''" by code_simp
  have f: "Suc (length (filter (\<lambda>l. strip l = []) [''Mr'', '''', '' '', ''Smith left.'', ''''])) = 4"
    by code_simp
  from blank_lines_open_paragraphs [OF h, of example_pipeline False "[''Mr'']" "[''Smith left.'']"
      "[''Mr'', '''', '' '', ''Smith left.'', '''']"
      example_sent_tokenize example_word_tokenize "''english''"] h
  show ?thesis by (simp only: n s f)
qed

section \<open>A blank line ends every merge\<close>

text \<open>
  Claim C5. A blank input line overrides the merge safeguard of \<^verbatim>\<open>nlp_process\<close>. For any
  lines \<open>pre\<close> before a blank line \<open>b\<close> and any lines \<open>post\<close> after it, the paragraphs
  built from \<open>pre\<close> are the first paragraphs of the final tree, unchanged, even when the
  last candidate of \<open>pre\<close> had one token: nothing that follows the blank line is merged
  into them, and at least one paragraph follows them. When the line \<open>l\<close> after the blank
  line has the candidates \<open>c # cs\<close>, the new paragraph starts with a sentence whose id is
  \<^verbatim>\<open>s{i+1}.1\<close> and whose first words are the tokens of \<open>c\<close>. The witness is the example of
  the claim: the lines \<^verbatim>\<open>Mr\<close>, a blank line and \<^verbatim>\<open>Smith left.\<close> give two paragraphs, the
  first with one sentence holding only \<^verbatim>\<open>Mr\<close>, the second starting at \<^verbatim>\<open>s2.1\<close>.
\<close>

theorem blank_line_overrides_merge:
  assumes "strip b = []"
  shows
   "take (length (nlp_tree nlp su pre)) (nlp_tree nlp su (pre @ b # post)) = nlp_tree nlp su pre \<and>
    length (nlp_tree nlp su pre) < length (nlp_tree nlp su (pre @ b # post)) \<and>
    (strip l \<noteq> [] \<and> nlp (strip l) = c # cs \<longrightarrow>
       s_id (hd (p_sents (last (nlp_tree nlp su (pre @ [b, l]))))) =
         s_format (Suc (length (nlp_tree nlp su pre))) 1 \<and>
       take (length c) (s_words (hd (p_sents (last (nlp_tree nlp su (pre @ [b, l])))))) =
         map (nlp_word su (Suc (length (nlp_tree nlp su pre))) 1) (enumerate 1 c))"
proof -
  let ?T = "nlp_tree nlp su pre" and ?n = "length (nlp_tree nlp su pre)"
  let ?new = "\<lparr>p_id = str (Suc ?n), p_sents = []\<rparr>"
  have "nlp_tree nlp su (pre @ b # post) =
      snd (foldl (nlp_step nlp su) (Suc ?n, ?T @ [?new]) post)"
    using assms nlp_tree_append [of nlp su pre "b # post"] by (simp add: nlp_step_blank)
  with nlp_fold_prefix [of nlp su "Suc ?n" ?T ?new post]
  obtain ps where ps: "nlp_tree nlp su (pre @ b # post) = ?T @ ps" "ps \<noteq> []" by auto
  then have a: "take ?n (nlp_tree nlp su (pre @ b # post)) = ?T"
    and b: "?n < length (nlp_tree nlp su (pre @ b # post))" by simp_all
  have c: "s_id (hd (p_sents (last (nlp_tree nlp su (pre @ [b, l]))))) = s_format (Suc ?n) 1 \<and>
       take (length c) (s_words (hd (p_sents (last (nlp_tree nlp su (pre @ [b, l])))))) =
         map (nlp_word su (Suc ?n) 1) (enumerate 1 c)"
    if l: "strip l \<noteq> []" "nlp (strip l) = c # cs"
  proof -
    have "nlp_tree nlp su (pre @ [b, l]) =
        ?T @ [?new\<lparr>p_sents := nlp_line su (Suc ?n) [] (c # cs)\<rparr>]"
      using assms l nlp_tree_append [of nlp su pre "[b, l]"]
      by (simp add: nlp_step_blank nlp_step_line)
    moreover from nlp_line_first [of su "Suc ?n" "[]" c cs]
    obtain ws ss where "nlp_line su (Suc ?n) [] (c # cs) =
      \<lparr>s_id = s_format (Suc ?n) 1, s_words = map (nlp_word su (Suc ?n) 1) (enumerate 1 c) @ ws\<rparr> # ss"
      by auto
    ultimately show ?thesis by simp
  qed
  from a b c show ?thesis by blast
qed

theorem blank_line_overrides_merge_witness:
  "strip '''' = [] \<and>
   nlp_tree example_pipeline False [''Mr'', '''', ''Smith left.''] =
     [\<lparr>p_id = ''1'', p_sents =
         [\<lparr>s_id = ''s1.1'', s_words =
             [\<lparr>w_id = ''w1.1.1'', w_text = ''Mr'', w_tree = Some ''T'', w_lem = Some ''Mr''\<rparr>]\<rparr>]\<rparr>,
      \<lparr>p_id = ''2'', p_sents =
         [\<lparr>s_id = ''s2.1'', s_words =
             [\<lparr>w_id = ''w2.1.1'', w_text = ''Smith'', w_tree = Some ''T'', w_lem = Some ''Smith''\<rparr>,
              \<lparr>w_id = ''w2.1.2'', w_text = ''left'', w_tree = Some ''T'', w_lem = Some ''left''\<rparr>,
              \<lparr>w_id = ''w2.1.3'', w_text = ''.'', w_tree = Some ''T'', w_lem = Some ''.''\<rparr>]\<rparr>]\<rparr>] \<and>
   take (length (nlp_tree example_pipeline False [''Mr'']))
     (nlp_tree example_pipeline False ([''Mr''] @ '''' # [''Smith left.''])) =
     nlp_tree example_pipeline False [''Mr''] \<and>
   strip ''Smith left.'' \<noteq> [] \<and>
   example_pipeline (strip ''Smith left.'') = [plain ''Smith'', plain ''left'', plain ''.''] # [] \<and>
   s_id (hd (p_sents (last (nlp_tree example_pipeline False ([''Mr''] @ ['''', ''Smith left.'']))))) =
     ''s2.1''"
proof -
  have h: "strip '''' = []" by code_simp
  have h2: "strip ''Smith left.'' \<noteq> []" by code_simp
  have h3: "example_pipeline (strip ''Smith left.'') =
      [plain ''Smith'', plain ''left'', plain ''.''] # []" by code_simp
  have f: "s_format (Suc (length (nlp_tree example_pipeline False [''Mr'']))) 1 = ''s2.1''"
    by code_simp
  have e: "nlp_tree example_pipeline False [''Mr'', '''', ''Smith left.''] =
     [\<lparr>p_id = ''1'', p_sents =
         [\<lparr>s_id = ''s1.1'', s_words =
             [\<lparr>w_id = ''w1.1.1'', w_text = ''Mr'', w_tree = Some ''T'', w_lem = Some ''Mr''\<rparr>]\<rparr>]\<rparr>,
      \<lparr>p_id = ''2'', p_sents =
         [\<lparr>s_id = ''s2.1'', s_words =
             [\<lparr>w_id = ''w2.1.1'', w_text = ''Smith'', w_tree = Some ''T'', w_lem = Some ''Smith''\<rparr>,
              \<lparr>w_id = ''w2.1.2'', w_text = ''left'', w_tree = Some ''T'', w_lem = Some ''left''\<rparr>,
              \<lparr>w_id = ''w2.1.3'', w_text = ''.'', w_tree = Some ''T'', w_lem = Some ''.''\<rparr>]\<rparr>]\<rparr>]"
    by code_simp
  from blank_line_overrides_merge [OF h, of example_pipeline False "[''Mr'']" "[''Smith left.'']"]
  have t: "take (length (nlp_tree example_pipeline False [''Mr'']))
     (nlp_tree example_pipeline False ([''Mr''] @ '''' # [''Smith left.''])) =
     nlp_tree example_pipeline False [''Mr'']" by (rule conjunct1)
  from blank_line_overrides_merge [OF h, of example_pipeline False "[''Mr'']" "[''Smith left.'']"
      "''Smith left.''" "[plain ''Smith'', plain ''left'', plain ''.'']" "[]"] h2 h3
  have "s_id (hd (p_sents (last (nlp_tree example_pipeline False ([''Mr''] @ ['''', ''Smith left.'']))))) =
     s_format (Suc (length (nlp_tree example_pipeline False [''Mr'']))) 1" by blast
  with f have u: "s_id (hd (p_sents (last (nlp_tree example_pipeline False
      ([''Mr''] @ ['''', ''Smith left.'']))))) = ''s2.1''" by simp
  from h e t h2 h3 u show ?thesis by (intro conjI)
qed

section \<open>The merge safeguard\<close>

text \<open>
  Claim C3, as amended. The claim says that every in-process backend merges the
  candidate after a one-token candidate into the same sentence. \<^verbatim>\<open>nltk_tokenize\<close> has no
  such safeguard, and \<^verbatim>\<open>nlp_process\<close> merges only inside one input line. What holds:
  in \<^verbatim>\<open>nlp_process\<close>, when a candidate \<open>c\<close> of a line has exactly one token and another
  candidate \<open>c'\<close> of the same line follows it, then \<open>c'\<close> opens no sentence node: the
  nodes are those built up to \<open>c\<close>, the last one keeps its id and has the tokens of
  \<open>c'\<close> appended after its words. In \<^verbatim>\<open>nltk_tokenize\<close> every sentence that
  \<^verbatim>\<open>sent_tokenize\<close> returns for a line opens a sentence node of its own.
\<close>

theorem merge_safeguard_only_in_nlp_process:
  "(length c = 1 \<longrightarrow>
      length (nlp_line su i sents (pre @ [c, c'])) = length (nlp_line su i sents (pre @ [c])) \<and>
      butlast (nlp_line su i sents (pre @ [c, c'])) = butlast (nlp_line su i sents (pre @ [c])) \<and>
      s_id (last (nlp_line su i sents (pre @ [c, c']))) =
        s_id (last (nlp_line su i sents (pre @ [c]))) \<and>
      map w_text (s_words (last (nlp_line su i sents (pre @ [c, c'])))) =
        map w_text (s_words (last (nlp_line su i sents (pre @ [c])))) @ map tok_text c') \<and>
   (strip line \<noteq> [] \<longrightarrow>
      length (p_sents (last (nltk_tree st wt pl (ls @ [line])))) =
        length (p_sents (last (nltk_tree st wt pl ls))) + length (st (strip line) pl))"
proof -
  have a: "length (nlp_line su i sents (pre @ [c, c'])) = length (nlp_line su i sents (pre @ [c])) \<and>
      butlast (nlp_line su i sents (pre @ [c, c'])) = butlast (nlp_line su i sents (pre @ [c])) \<and>
      s_id (last (nlp_line su i sents (pre @ [c, c']))) =
        s_id (last (nlp_line su i sents (pre @ [c]))) \<and>
      map w_text (s_words (last (nlp_line su i sents (pre @ [c, c'])))) =
        map w_text (s_words (last (nlp_line su i sents (pre @ [c])))) @ map tok_text c'"
    if "length c = 1"
  proof -
    from nlp_line_merge [OF that, of su i sents pre c']
    obtain ys y j where "nlp_line su i sents (pre @ [c]) = ys @ [y]"
      and "nlp_line su i sents (pre @ [c, c']) =
             ys @ [y\<lparr>s_words := s_words y @ map (nlp_word su i j) (enumerate 1 c')\<rparr>]"
      by blast
    then show ?thesis by (simp add: map_w_text_nlp_word)
  qed
  have b: "length (p_sents (last (nltk_tree st wt pl (ls @ [line])))) =
        length (p_sents (last (nltk_tree st wt pl ls))) + length (st (strip line) pl)"
    if l: "strip line \<noteq> []"
  proof -
    obtain j where j: "nltk_tree st wt pl (ls @ [line]) =
       snd (snd (foldl (nltk_step st wt pl)
                 (length (nltk_tree st wt pl ls), j, nltk_tree st wt pl ls) [line]))"
      using nltk_tree_append [of st wt pl ls "[line]"] by blast
    have "nltk_tree st wt pl ls \<noteq> []"
      using nltk_tree_numbered [of st wt pl ls] by (simp add: numbered_def)
    then obtain ps p where "nltk_tree st wt pl ls = ps @ [p]"
      by (cases "nltk_tree st wt pl ls" rule: rev_cases) auto
    with j l show ?thesis by (simp add: nltk_step_line)
  qed
  from a b show ?thesis by blast
qed

theorem merge_safeguard_only_in_nlp_process_witness:
  "length [plain ''Mr''] = 1 \<and> strip ''Mr Smith left.'' \<noteq> [] \<and>
   map w_text (s_words (last (nlp_line False 1 []
       ([] @ [[plain ''Mr''], [plain ''Smith'', plain ''left'', plain ''.'']])))) =
     [''Mr'', ''Smith'', ''left'', ''.''] \<and>
   length (nlp_line False 1 [] ([] @ [[plain ''Mr''], [plain ''Smith'', plain ''left'', plain ''.'']])) = 1 \<and>
   length (p_sents (last (nltk_tree example_sent_tokenize example_word_tokenize ''english''
       ([] @ [''Mr Smith left.''])))) = 2"
proof -
  have h1: "length [plain ''Mr''] = 1" by simp
  have h2: "strip ''Mr Smith left.'' \<noteq> []" by code_simp
  have e1: "map w_text (s_words (last (nlp_line False 1 [] ([] @ [[plain ''Mr'']])))) = [''Mr'']"
    by code_simp
  have e2: "length (nlp_line False 1 [] ([] @ [[plain ''Mr'']])) = 1"
    by code_simp
  have e3: "map tok_text [plain ''Smith'', plain ''left'', plain ''.''] = [''Smith'', ''left'', ''.'']"
    by code_simp
  have e4: "length (p_sents (last (nltk_tree example_sent_tokenize example_word_tokenize ''english'' []))) = 0"
    by code_simp
  have e5: "length (example_sent_tokenize (strip ''Mr Smith left.'') ''english'') = 2"
    by code_simp
  from merge_safeguard_only_in_nlp_process [of "[plain ''Mr'']" False 1 "[]" "[]"
      "[plain ''Smith'', plain ''left'', plain ''.'']" "''Mr Smith left.''"
      example_sent_tokenize example_word_tokenize "''english''" "[]"] h1 h2
  show ?thesis by (simp only: e1 e2 e3 e4 e5) simp
qed

text \<open>
  The claim as stated fails twice. \<^verbatim>\<open>nltk_tokenize\<close>, given the sentences \<^verbatim>\<open>Mr\<close> (one
  token) and \<^verbatim>\<open>Smith left.\<close> for one line, builds two sentence nodes. \<^verbatim>\<open>nlp_process\<close>,
  given the one-token candidate \<^verbatim>\<open>Mr\<close> on one line and the next candidate on the next
  line, builds two sentence nodes as well.
\<close>

theorem nltk_has_no_merge_safeguard:
  "example_word_tokenize ''Mr'' ''english'' = [''Mr''] \<and>
   nltk_tree example_sent_tokenize example_word_tokenize ''english'' [''Mr Smith left.''] =
     [\<lparr>p_id = ''1'', p_sents =
        [\<lparr>s_id = ''s1.1'', s_words =
            [\<lparr>w_id = ''w1.1.1'', w_text = ''Mr'', w_tree = None, w_lem = None\<rparr>]\<rparr>,
         \<lparr>s_id = ''s1.1'', s_words =
            [\<lparr>w_id = ''w1.1.1'', w_text = ''Smith'', w_tree = None, w_lem = None\<rparr>,
             \<lparr>w_id = ''w1.1.2'', w_text = ''left'', w_tree = None, w_lem = None\<rparr>,
             \<lparr>w_id = ''w1.1.3'', w_text = ''.'', w_tree = None, w_lem = None\<rparr>]\<rparr>]\<rparr>] \<and>
   example_pipeline ''Mr'' = [[plain ''Mr'']] \<and>
   map (map w_text \<circ> s_words) (p_sents (hd (nlp_tree example_pipeline True [''Mr'', ''Smith left.'']))) =
     [[''Mr''], [''Smith'', ''left'', ''.'']]"
  by code_simp

section \<open>The state of the merge does not outlive a line\<close>

text \<open>
  Claim C4, as amended. The claim says that the sentence counter and an open merge carry
  over from one line of a paragraph to the next. In \<^verbatim>\<open>nlp_process\<close> both are set anew for
  every non-empty line (\<^verbatim>\<open>start_new = True\<close>, \<^verbatim>\<open>j = 0\<close>). What holds of the merge: for
  every non-empty line with at least one candidate, the sentences that the earlier lines
  put in the current paragraph are left as they are, and the first candidate \<open>c\<close> of the
  line opens a new sentence node \<open>s\<close> whose first words are the tokens of \<open>c\<close>, also
  when the last candidate of the line before had exactly one token. Nothing is said
  here about the id the new node receives.
\<close>

theorem every_line_opens_a_sentence:
  assumes "strip line \<noteq> []" and "nlp (strip line) = c # cs"
  shows "\<exists>s ss. nlp_tree nlp su (pre @ [line]) =
           butlast (nlp_tree nlp su pre) @
             [(last (nlp_tree nlp su pre))\<lparr>p_sents := p_sents (last (nlp_tree nlp su pre)) @ s # ss\<rparr>] \<and>
           take (length c) (map w_text (s_words s)) = map tok_text c"
proof -
  let ?T = "nlp_tree nlp su pre"
  have "?T \<noteq> []" using nlp_tree_numbered [of nlp su pre] by (simp add: numbered_def)
  then have T: "?T = butlast ?T @ [last ?T]" by simp
  have "nlp_tree nlp su (pre @ [line]) =
     snd (nlp_step nlp su (length ?T, butlast ?T @ [last ?T]) line)"
    using nlp_tree_append [of nlp su pre "[line]"] T by simp
  then have 1: "nlp_tree nlp su (pre @ [line]) =
     butlast ?T @ [(last ?T)\<lparr>p_sents := nlp_line su (length ?T) (p_sents (last ?T)) (c # cs)\<rparr>]"
    using assms by (simp add: nlp_step_line)
  from nlp_line_first [of su "length ?T" "p_sents (last ?T)" c cs]
  obtain ws ss where 2: "nlp_line su (length ?T) (p_sents (last ?T)) (c # cs) =
     p_sents (last ?T) @ \<lparr>s_id = s_format (length ?T) 1,
        s_words = map (nlp_word su (length ?T) 1) (enumerate 1 c) @ ws\<rparr> # ss"
    by blast
  have "take (length c) (map w_text (s_words \<lparr>s_id = s_format (length ?T) 1,
        s_words = map (nlp_word su (length ?T) 1) (enumerate 1 c) @ ws\<rparr>)) = map tok_text c"
    by (simp add: map_w_text_nlp_word)
  with 1 2 show ?thesis by metis
qed

text \<open>
  The claim as stated fails for the lines \<^verbatim>\<open>Mr\<close> and \<^verbatim>\<open>Smith left.\<close> of one paragraph:
  the second line is not merged into the sentence of \<^verbatim>\<open>Mr\<close>, and its sentence is not
  numbered \<^verbatim>\<open>s1.2\<close>.
\<close>

theorem merge_state_restarts_per_line_counterexample:
  "nlp_tree example_pipeline False [''Mr'', ''Smith left.''] =
     [\<lparr>p_id = ''1'', p_sents =
         [\<lparr>s_id = ''s1.1'', s_words =
             [\<lparr>w_id = ''w1.1.1'', w_text = ''Mr'', w_tree = Some ''T'', w_lem = Some ''Mr''\<rparr>]\<rparr>,
          \<lparr>s_id = ''s1.1'', s_words =
             [\<lparr>w_id = ''w1.1.1'', w_text = ''Smith'', w_tree = Some ''T'', w_lem = Some ''Smith''\<rparr>,
              \<lparr>w_id = ''w1.1.2'', w_text = ''left'', w_tree = Some ''T'', w_lem = Some ''left''\<rparr>,
              \<lparr>w_id = ''w1.1.3'', w_text = ''.'', w_tree = Some ''T'', w_lem = Some ''.''\<rparr>]\<rparr>]\<rparr>]"
  by code_simp

theorem every_line_opens_a_sentence_witness:
  "strip ''Smith left.'' \<noteq> [] \<and>
   example_pipeline (strip ''Smith left.'') = [plain ''Smith'', plain ''left'', plain ''.''] # [] \<and>
   (\<exists>s ss. nlp_tree example_pipeline False ([''Mr''] @ [''Smith left.'']) =
           butlast (nlp_tree example_pipeline False [''Mr'']) @
             [(last (nlp_tree example_pipeline False [''Mr'']))
                \<lparr>p_sents := p_sents (last (nlp_tree example_pipeline False [''Mr''])) @ s # ss\<rparr>] \<and>
           take (length [plain ''Smith'', plain ''left'', plain ''.'']) (map w_text (s_words s)) =
             map tok_text [plain ''Smith'', plain ''left'', plain ''.'']) \<and>
   map (map w_text \<circ> s_words) (p_sents (last (nlp_tree example_pipeline False [''Mr'']))) =
     [[''Mr'']]"
proof -
  have h1: "strip ''Smith left.'' \<noteq> []" by code_simp
  have h2: "example_pipeline (strip ''Smith left.'') =
      [plain ''Smith'', plain ''left'', plain ''.''] # []" by code_simp
  have e: "map (map w_text \<circ> s_words) (p_sents (last (nlp_tree example_pipeline False [''Mr'']))) =
     [[''Mr'']]" by code_simp
  from h1 h2 e
    every_line_opens_a_sentence [of "''Smith left.''" example_pipeline
      "[plain ''Smith'', plain ''left'', plain ''.'']" "[]" False "[''Mr'']", OF h1 h2]
  show ?thesis by (intro conjI)
qed

section \<open>Sentence and word ids that repeat\<close>

text \<open>
  Claim C1 does not hold of the code. In \<^verbatim>\<open>nltk_tokenize\<close> the statement \<^verbatim>\<open>j += 1\<close> stands
  after the loop over the sentences of a line, so the two sentences of the line
  \<^verbatim>\<open>Hello world. Good bye.\<close> both receive the id \<^verbatim>\<open>s1.1\<close>, and their words the ids
  \<^verbatim>\<open>w1.1.1\<close> to \<^verbatim>\<open>w1.1.3\<close> twice. In \<^verbatim>\<open>nlp_process\<close> \<^verbatim>\<open>j = 0\<close> is set for every line, so a
  paragraph of two such lines has the sentence ids \<^verbatim>\<open>s1.1, s1.2, s1.1, s1.2\<close>.
\<close>

theorem nltk_sentences_of_a_line_share_an_id:
  "nltk_tree example_sent_tokenize example_word_tokenize ''english'' [''Hello world. Good bye.''] =
     [\<lparr>p_id = ''1'', p_sents =
        [\<lparr>s_id = ''s1.1'', s_words =
            [\<lparr>w_id = ''w1.1.1'', w_text = ''Hello'', w_tree = None, w_lem = None\<rparr>,
             \<lparr>w_id = ''w1.1.2'', w_text = ''world'', w_tree = None, w_lem = None\<rparr>,
             \<lparr>w_id = ''w1.1.3'', w_text = ''.'', w_tree = None, w_lem = None\<rparr>]\<rparr>,
         \<lparr>s_id = ''s1.1'', s_words =
            [\<lparr>w_id = ''w1.1.1'', w_text = ''Good'', w_tree = None, w_lem = None\<rparr>,
             \<lparr>w_id = ''w1.1.2'', w_text = ''bye'', w_tree = None, w_lem = None\<rparr>,
             \<lparr>w_id = ''w1.1.3'', w_text = ''.'', w_tree = None, w_lem = None\<rparr>]\<rparr>]\<rparr>] \<and>
   map s_id (p_sents (hd (nlp_tree example_pipeline False
       [''Hello world. Good bye.'', ''Hello world. Good bye.'']))) =
     [''s1.1'', ''s1.2'', ''s1.1'', ''s1.2'']"
  by code_simp

text \<open>
  Claim C2 does not hold of the code. For the candidates \<^verbatim>\<open>[["Mr"], ["Smith", "left", "."]]\<close>
  of one line \<^verbatim>\<open>nlp_process\<close> builds one sentence \<^verbatim>\<open>s1.1\<close> with the four words in order,
  but \<^verbatim>\<open>enumerate(sent, start=1)\<close> numbers the words of every candidate from 1, so the
  word ids are \<^verbatim>\<open>w1.1.1, w1.1.1, w1.1.2, w1.1.3\<close> and not \<^verbatim>\<open>w1.1.1\<close> to \<^verbatim>\<open>w1.1.4\<close>.
\<close>

theorem merged_words_are_numbered_per_candidate:
  "nlp_tree example_pipeline False [''Mr Smith left.''] =
     [\<lparr>p_id = ''1'', p_sents =
         [\<lparr>s_id = ''s1.1'', s_words =
             [\<lparr>w_id = ''w1.1.1'', w_text = ''Mr'', w_tree = Some ''T'', w_lem = Some ''Mr''\<rparr>,
              \<lparr>w_id = ''w1.1.1'', w_text = ''Smith'', w_tree = Some ''T'', w_lem = Some ''Smith''\<rparr>,
              \<lparr>w_id = ''w1.1.2'', w_text = ''left'', w_tree = Some ''T'', w_lem = Some ''left''\<rparr>,
              \<lparr>w_id = ''w1.1.3'', w_text = ''.'', w_tree = Some ''T'', w_lem = Some ''.''\<rparr>]\<rparr>]\<rparr>] \<and>
   map (map w_id \<circ> s_words) (p_sents (hd (nlp_tree example_pipeline True [''Mr Smith left.'']))) =
     [[''w1.1.1'', ''w1.1.1'', ''w1.1.2'', ''w1.1.3'']]"
  by code_simp

section \<open>Unsupported languages\<close>

text \<open>
  Claim C6. When the language has no entry in \<^verbatim>\<open>NLTK_LANGUAGES\<close>, \<^verbatim>\<open>nltk_tokenize\<close> raises
  the \<^verbatim>\<open>ClickException\<close> "Tokenization in NLTK not available for language ..." and
  leaves the world as it was: no file has been read and no document written. The same
  holds of \<^verbatim>\<open>spacy_tokenize\<close> and \<^verbatim>\<open>SPACY_MODELS\<close>. Called through \<^verbatim>\<open>tokenize_single\<close> with
  the backend's selector, the only effect before the exception is the message that
  \<^verbatim>\<open>click.echo\<close> prints.
\<close>

theorem unsupported_language_raises_first:
  "(NLTK_LANGUAGES c language = None \<longrightarrow>
      nltk_tokenize c b file_in file_out language w =
        (Inl (ClickException (''Tokenization in NLTK not available for language '' @ language)), w)) \<and>
   (SPACY_MODELS c language = None \<longrightarrow>
      spacy_tokenize c b file_in file_out language w =
        (Inl (ClickException (''Tokenization in Spacy not available for language '' @ language)), w)) \<and>
   (NLTK_LANGUAGES c language = None \<and> NLTK c \<noteq> UPLUG c \<longrightarrow>
      tokenize_single c b file_in file_out language (NLTK c) w =
        (Inl (ClickException (''Tokenization in NLTK not available for language '' @ language)),
         click_echo ''Using NLTK tokenization'' w)) \<and>
   (SPACY_MODELS c language = None \<and> SPACY c \<noteq> UPLUG c \<and> SPACY c \<noteq> NLTK c \<longrightarrow>
      tokenize_single c b file_in file_out language (SPACY c) w =
        (Inl (ClickException (''Tokenization in Spacy not available for language '' @ language)),
         click_echo ''Using Spacy tokenization'' w))"
  by (simp add: nltk_tokenize_def spacy_tokenize_def tokenize_single_def)

theorem unsupported_language_raises_first_witness:
  "NLTK_LANGUAGES example_constants ''xx'' = None \<and>
   SPACY_MODELS example_constants ''xx'' = None \<and>
   nltk_tokenize example_constants example_backends ''in.txt'' ''out.xml'' ''xx'' example_world =
     (Inl (ClickException ''Tokenization in NLTK not available for language xx''), example_world) \<and>
   spacy_tokenize example_constants example_backends ''in.txt'' ''out.xml'' ''xx'' example_world =
     (Inl (ClickException ''Tokenization in Spacy not available for language xx''), example_world) \<and>
   tokenize_single example_constants example_backends ''in.txt'' ''out.xml'' ''xx'' ''nltk''
       example_world =
     (Inl (ClickException ''Tokenization in NLTK not available for language xx''),
      example_world\<lparr>events := [Echo ''Using NLTK tokenization'']\<rparr>) \<and>
   tokenize_single example_constants example_backends ''in.txt'' ''out.xml'' ''xx'' ''spacy''
       example_world =
     (Inl (ClickException ''Tokenization in Spacy not available for language xx''),
      example_world\<lparr>events := [Echo ''Using Spacy tokenization'']\<rparr>) \<and>
   events example_world = [] \<and> documents example_world ''out.xml'' = None"
proof -
  have h1: "NLTK_LANGUAGES example_constants ''xx'' = None"
    by (simp add: example_constants_def)
  have h2: "SPACY_MODELS example_constants ''xx'' = None"
    by (simp add: example_constants_def)
  have k: "NLTK example_constants = ''nltk''" "SPACY example_constants = ''spacy''"
    "NLTK example_constants \<noteq> UPLUG example_constants"
    "SPACY example_constants \<noteq> UPLUG example_constants"
    "SPACY example_constants \<noteq> NLTK example_constants"
    by (simp_all add: example_constants_def)
  have w: "click_echo ''Using NLTK tokenization'' example_world =
      example_world\<lparr>events := [Echo ''Using NLTK tokenization'']\<rparr>"
    "click_echo ''Using Spacy tokenization'' example_world =
      example_world\<lparr>events := [Echo ''Using Spacy tokenization'']\<rparr>"
    "events example_world = []" "documents example_world ''out.xml'' = None"
    by (simp_all add: click_echo_def example_world_def)
  from unsupported_language_raises_first [of example_constants "''xx''" example_backends
      "''in.txt''" "''out.xml''" example_world] h1 h2 k(3-5)
  show ?thesis by (simp add: k(1,2) w)
qed

section \<open>The Uplug adapter is silent\<close>

text \<open>
  Claim C8. \<^verbatim>\<open>uplug_tokenize\<close> returns normally whatever the shell command does: the
  exit status that \<^verbatim>\<open>subprocess.call\<close> returns is dropped, and the command's standard
  output and standard error go to the null device. The world after the call is the
  world the command leaves (the file its redirection wrote, if any), and two commands
  that leave the same world give the same result of \<^verbatim>\<open>uplug_tokenize\<close>, whatever their
  exit status and their streams: a failure shows only in the files.
\<close>

theorem uplug_failure_is_silent:
  "fst (uplug_tokenize sh file_in file_out language w) = Inr () \<and>
   snd (uplug_tokenize sh file_in file_out language w) =
     snd (sh (uplug_command language file_in file_out)
            (w\<lparr>events := events w @ [Shell (uplug_command language file_in file_out)]\<rparr>)) \<and>
   (snd (sh (uplug_command language file_in file_out)
            (w\<lparr>events := events w @ [Shell (uplug_command language file_in file_out)]\<rparr>)) =
    snd (sh' (uplug_command language file_in file_out)
            (w\<lparr>events := events w @ [Shell (uplug_command language file_in file_out)]\<rparr>)) \<longrightarrow>
    uplug_tokenize sh file_in file_out language w = uplug_tokenize sh' file_in file_out language w)"
  by (simp add: uplug_tokenize_def subprocess_call_def split: prod.splits)

theorem uplug_failure_is_silent_witness:
  "returncode (fst (failing_shell (uplug_command ''nl'' ''my file.txt'' ''out.xml'') example_world)) = 127 \<and>
   uplug_command ''nl'' ''my file.txt'' ''out.xml'' =
     ''uplug -f pre/basic pre/nl/basic -in '' @ [CHR 0x27] @ ''my file.txt'' @ [CHR 0x27] @ '' > out.xml'' \<and>
   fst (uplug_tokenize failing_shell ''my file.txt'' ''out.xml'' ''nl'' example_world) = Inr () \<and>
   documents (snd (uplug_tokenize failing_shell ''my file.txt'' ''out.xml'' ''nl'' example_world))
     ''out.xml'' = None \<and>
   uplug_tokenize failing_shell ''my file.txt'' ''out.xml'' ''nl'' example_world =
     uplug_tokenize quiet_shell ''my file.txt'' ''out.xml'' ''nl'' example_world"
proof -
  have c: "uplug_command ''nl'' ''my file.txt'' ''out.xml'' =
     ''uplug -f pre/basic pre/nl/basic -in '' @ [CHR 0x27] @ ''my file.txt'' @ [CHR 0x27] @ '' > out.xml''"
    by code_simp
  have r: "returncode (fst (failing_shell (uplug_command ''nl'' ''my file.txt'' ''out.xml'') example_world)) = 127"
    by (simp add: failing_shell_def)
  have d: "documents (snd (uplug_tokenize failing_shell ''my file.txt'' ''out.xml'' ''nl'' example_world))
     ''out.xml'' = None"
    by (simp add: uplug_tokenize_def subprocess_call_def failing_shell_def example_world_def)
  have h: "snd (failing_shell (uplug_command ''nl'' ''my file.txt'' ''out.xml'')
            (example_world\<lparr>events := events example_world @
               [Shell (uplug_command ''nl'' ''my file.txt'' ''out.xml'')]\<rparr>)) =
    snd (quiet_shell (uplug_command ''nl'' ''my file.txt'' ''out.xml'')
            (example_world\<lparr>events := events example_world @
               [Shell (uplug_command ''nl'' ''my file.txt'' ''out.xml'')]\<rparr>))"
    by (simp add: failing_shell_def quiet_shell_def)
  note t = uplug_failure_is_silent [of failing_shell "''my file.txt''" "''out.xml''" "''nl''"
      example_world quiet_shell]
  from t have 1: "fst (uplug_tokenize failing_shell ''my file.txt'' ''out.xml'' ''nl'' example_world) = Inr ()"
    by (rule conjunct1)
  from t h have 2: "uplug_tokenize failing_shell ''my file.txt'' ''out.xml'' ''nl'' example_world =
        uplug_tokenize quiet_shell ''my file.txt'' ''out.xml'' ''nl'' example_world"
    by blast
  from c r d 1 2 show ?thesis by blast
qed

section \<open>Selectors without a backend\<close>

text \<open>
  Claim C10. When the tokenizer is none of the selectors \<^verbatim>\<open>UPLUG\<close>, \<^verbatim>\<open>NLTK\<close>, \<^verbatim>\<open>SPACY\<close>,
  \<^verbatim>\<open>STANZA\<close> (it is \<^verbatim>\<open>TREETAGGER\<close>, or no selector at all), \<^verbatim>\<open>tokenize_single\<close> returns
  normally, reads no file and writes no document. For \<^verbatim>\<open>TREETAGGER\<close> the one effect is
  the message "Using TreeTagger tokenization" of \<^verbatim>\<open>click.echo\<close>; for any other value
  the world is unchanged.
\<close>

theorem unknown_tokenizer_is_a_noop:
  assumes "tokenizer \<noteq> UPLUG c" and "tokenizer \<noteq> NLTK c"
    and "tokenizer \<noteq> SPACY c" and "tokenizer \<noteq> STANZA c"
  shows
   "fst (tokenize_single c b file_in file_out language tokenizer w) = Inr () \<and>
    snd (tokenize_single c b file_in file_out language tokenizer w) =
      (if tokenizer = TREETAGGER c then click_echo ''Using TreeTagger tokenization'' w else w) \<and>
    files (snd (tokenize_single c b file_in file_out language tokenizer w)) = files w \<and>
    documents (snd (tokenize_single c b file_in file_out language tokenizer w)) = documents w \<and>
    events (snd (tokenize_single c b file_in file_out language tokenizer w)) =
      (if tokenizer = TREETAGGER c then events w @ [Echo ''Using TreeTagger tokenization'']
       else events w)"
  using assms by (simp add: tokenize_single_def click_echo_def)

theorem unknown_tokenizer_is_a_noop_witness:
  "tokenize_single example_constants example_backends ''in.txt'' ''out.xml'' ''en'' ''treetagger''
     example_world =
     (Inr (), example_world\<lparr>events := [Echo ''Using TreeTagger tokenization'']\<rparr>) \<and>
   tokenize_single example_constants example_backends ''in.txt'' ''out.xml'' ''en'' ''punkt''
     example_world = (Inr (), example_world)"
proof -
  have t: "''treetagger'' \<noteq> UPLUG example_constants" "''treetagger'' \<noteq> NLTK example_constants"
    "''treetagger'' \<noteq> SPACY example_constants" "''treetagger'' \<noteq> STANZA example_constants"
    "''treetagger'' = TREETAGGER example_constants"
    by (simp_all add: example_constants_def)
  have p: "''punkt'' \<noteq> UPLUG example_constants" "''punkt'' \<noteq> NLTK example_constants"
    "''punkt'' \<noteq> SPACY example_constants" "''punkt'' \<noteq> STANZA example_constants"
    "''punkt'' \<noteq> TREETAGGER example_constants"
    by (simp_all add: example_constants_def)
  from unknown_tokenizer_is_a_noop [OF t(1-4), of example_backends "''in.txt''" "''out.xml''" "''en''" example_world]
    unknown_tokenizer_is_a_noop [OF p(1-4), of example_backends "''in.txt''" "''out.xml''" "''en''" example_world]
    t(5) p(5)
  show ?thesis by (simp add: prod_eq_iff click_echo_def example_world_def)
qed

end
